theory Spec2Isabelle
  imports Main "HOL-Library.Sublist"
begin

section \<open>Python strings\<close>

text \<open>
  A Python \<open>str\<close> is a sequence of Unicode code points; it is modelled as a list of
  natural numbers, one per code point. ASCII literals of the source are written with
  \<open>ascii\<close>, which maps each character of an Isabelle string to its code.
\<close>

type_synonym ustring = "nat list"

definition ascii :: "string \<Rightarrow> ustring" where
  "ascii s = map of_char s"

text \<open>
  \<open>str.isspace\<close> for one code point: the code points CPython treats as whitespace
  (the table behind \<open>str.strip()\<close> without arguments).
\<close>

definition py_isspace :: "nat \<Rightarrow> bool" where
  "py_isspace c \<longleftrightarrow>
     (9 \<le> c \<and> c \<le> 13) \<or> (28 \<le> c \<and> c \<le> 32) \<or> c = 133 \<or> c = 160 \<or> c = 5760 \<or>
     (8192 \<le> c \<and> c \<le> 8202) \<or> c = 8232 \<or> c = 8233 \<or> c = 8239 \<or> c = 8287 \<or>
     c = 12288"

text \<open>\<open>s.strip()\<close>: leading and trailing whitespace removed.\<close>

definition strip :: "ustring \<Rightarrow> ustring" where
  "strip s = rev (dropWhile py_isspace (rev (dropWhile py_isspace s)))"

text \<open>
  \<open>s.split(sep)\<close> for a one-character separator: the pieces between the separators,
  empty pieces included; the empty string gives one empty piece.
\<close>

fun py_split :: "nat \<Rightarrow> ustring \<Rightarrow> ustring list" where
  "py_split sep [] = [[]]"
| "py_split sep (c # cs) =
     (if c = sep then [] # py_split sep cs
      else (case py_split sep cs of [] \<Rightarrow> [[c]] | l # ls \<Rightarrow> (c # l) # ls))"

text \<open>\<open>sep.join(xs)\<close>.\<close>

fun py_join :: "ustring \<Rightarrow> ustring list \<Rightarrow> ustring" where
  "py_join sep [] = []"
| "py_join sep [x] = x"
| "py_join sep (x # y # ys) = x @ sep @ py_join sep (y # ys)"

text \<open>\<open>s.replace(a, b)\<close> for one-character \<open>a\<close> and \<open>b\<close>.\<close>

definition py_replace :: "nat \<Rightarrow> nat \<Rightarrow> ustring \<Rightarrow> ustring" where
  "py_replace a b s = map (\<lambda>c. if c = a then b else c) s"

text \<open>\<open>pat in s\<close>: \<open>pat\<close> occurs in \<open>s\<close> as a contiguous substring.\<close>

fun py_in :: "ustring \<Rightarrow> ustring \<Rightarrow> bool" where
  "py_in pat [] = (pat = [])"
| "py_in pat (c # cs) = (prefix pat (c # cs) \<or> py_in pat cs)"

text \<open>\<open>str(n)\<close> for an integer.\<close>

fun str_nat :: "nat \<Rightarrow> ustring" where
  "str_nat n = (if n < 10 then [48 + n] else str_nat (n div 10) @ [48 + n mod 10])"

declare str_nat.simps [simp del]

definition str_int :: "int \<Rightarrow> ustring" where
  "str_int i = (if i < 0 then 45 # str_nat (nat (- i)) else str_nat (nat i))"

section \<open>Constants of the module\<close>

definition COLOR_RESET :: ustring where "COLOR_RESET = 27 # ascii ''[0m''"
definition COLOR_RED :: ustring where "COLOR_RED = 27 # ascii ''[31m''"
definition COLOR_GREEN :: ustring where "COLOR_GREEN = 27 # ascii ''[32m''"
definition COLOR_YELLOW :: ustring where "COLOR_YELLOW = 27 # ascii ''[33m''"
definition COLOR_BLUE :: ustring where "COLOR_BLUE = 27 # ascii ''[34m''"
definition COLOR_MAGENTA :: ustring where "COLOR_MAGENTA = 27 # ascii ''[35m''"
definition COLOR_CYAN :: ustring where "COLOR_CYAN = 27 # ascii ''[36m''"
definition COLOR_WHITE :: ustring where "COLOR_WHITE = 27 # ascii ''[37m''"
definition COLOR_BOLD :: ustring where "COLOR_BOLD = 27 # ascii ''[1m''"

definition ICON_INFO :: ustring where "ICON_INFO = [0xF05A]"
definition ICON_DOWNLOAD :: ustring where "ICON_DOWNLOAD = [0xF019]"
definition ICON_FILTER :: ustring where "ICON_FILTER = [0xF0B0]"
definition ICON_OPENAI :: ustring where "ICON_OPENAI = [0xEE9C]"
definition ICON_CHECK :: ustring where "ICON_CHECK = [0xF00C]"
definition ICON_ERROR :: ustring where "ICON_ERROR = [0xF00D]"
definition ICON_VIDEO :: ustring where "ICON_VIDEO = [0xF03D]"
definition ICON_CLIPBOARD :: ustring where "ICON_CLIPBOARD = [0xF0EA]"

section \<open>The caption filter\<close>

text \<open>
  \<open>filter_captions\<close>: strip the text, split it at newlines, keep the lines whose
  0-based index \<open>i\<close> has \<open>(i - 1) % 3 == 0\<close>, join them with one space. Python's \<open>%\<close>
  with a positive divisor is the floored remainder, as \<open>mod\<close> on \<open>int\<close> is.
\<close>

definition filter_captions :: "ustring \<Rightarrow> ustring" where
  "filter_captions captions =
     (let lines = py_split 10 (strip captions);
          text_lines = map snd (filter (\<lambda>(i, line). (int i - 1) mod 3 = 0) (enumerate 0 lines))
      in py_join (ascii '' '') text_lines)"

section \<open>The world outside the module\<close>

text \<open>
  The external collaborators are parameters of the model. \<open>subprocess.run\<close> with
  \<open>check=True\<close> returns the standard output, raises \<open>CalledProcessError\<close> (return
  code and standard error) or raises something else; an exception is carried by its
  \<open>str()\<close>. \<open>json.loads\<close> of the output of \<open>yt-dlp --print-json\<close> is taken to yield an
  object with the string fields \<open>title\<close> and \<open>id\<close>, or to raise \<open>JSONDecodeError\<close>.
\<close>

record video_info =
  info_title :: ustring
  info_id :: ustring

datatype run_outcome =
    Completed ustring
  | CalledProcessError int ustring
  | Run_raised ustring

datatype loads_outcome =
    Loaded video_info
  | JSONDecodeError ustring

text \<open>
  One entry of a transcript. The times are Python floats; their type is left open
  (\<open>'t\<close>), with the addition and the formatting of the f-string as parameters.
\<close>

record 't entry =
  entry_start :: 't
  entry_duration :: 't
  entry_text :: ustring

text \<open>
  \<open>get_transcript video_id languages\<close> and \<open>chat_completions_create model system user
  max_tokens\<close> give \<open>Inl\<close> of the message of the exception raised, or \<open>Inr\<close> of the
  transcript, respectively of \<open>response.choices[0].message.content\<close>.
  \<open>str.capitalize\<close> and \<open>str.splitlines\<close> are only used for rendering and are
  parameters as well.
\<close>

record 't env =
  subprocess_run :: "ustring list \<Rightarrow> run_outcome"
  json_loads :: "ustring \<Rightarrow> loads_outcome"
  get_transcript :: "ustring \<Rightarrow> ustring list \<Rightarrow> ustring + 't entry list"
  chat_completions_create :: "ustring \<Rightarrow> ustring \<Rightarrow> ustring \<Rightarrow> int \<Rightarrow> ustring + ustring"
  float_add :: "'t \<Rightarrow> 't \<Rightarrow> 't"
  float_str :: "'t \<Rightarrow> ustring"
  str_capitalize :: "ustring \<Rightarrow> ustring"
  str_splitlines :: "ustring \<Rightarrow> ustring list"
  CLIPBOARD_AVAILABLE :: bool

text \<open>
  What a run does that can be observed, in order: the lines it prints, the calls of
  the module's functions made by the orchestrator (\<open>Call_\<close>, with the arguments as
  passed; an optional argument left out is \<open>None\<close>) and the calls that leave the module
  (\<open>Ext_\<close>). The state of the process is the module-level variable \<open>title\<close> and this
  trace.
\<close>

datatype event =
    Print ustring
  | Call_get_video_info ustring
  | Call_download_captions ustring ustring
  | Call_filter_captions ustring
  | Call_generate_standart_prompt ustring ustring
  | Call_generate_bulletpoint_prompt ustring ustring
  | Call_fetch_gpt3_response ustring "int option"
  | Ext_subprocess_run "ustring list"
  | Ext_get_transcript ustring "ustring list"
  | Ext_chat_completions_create ustring ustring ustring int
  | Ext_pyperclip_copy ustring

record world =
  title :: ustring
  trace :: "event list"

definition emit :: "event \<Rightarrow> world \<Rightarrow> world" where
  "emit e w = w\<lparr>trace := trace w @ [e]\<rparr>"

definition py_print :: "ustring \<Rightarrow> world \<Rightarrow> world" where
  "py_print s w = emit (Print s) w"

definition new_events :: "world \<Rightarrow> world \<Rightarrow> event list" where
  "new_events w w' = drop (length (trace w)) (trace w')"

fun is_caption_fetcher_call :: "event \<Rightarrow> bool" where
  "is_caption_fetcher_call (Call_download_captions v l) = True"
| "is_caption_fetcher_call (Ext_get_transcript v ls) = True"
| "is_caption_fetcher_call e = False"

fun is_prompt_builder_call :: "event \<Rightarrow> bool" where
  "is_prompt_builder_call (Call_generate_standart_prompt t c) = True"
| "is_prompt_builder_call (Call_generate_bulletpoint_prompt t c) = True"
| "is_prompt_builder_call e = False"

fun is_summarizer_call :: "event \<Rightarrow> bool" where
  "is_summarizer_call (Call_fetch_gpt3_response p n) = True"
| "is_summarizer_call (Ext_chat_completions_create m s p n) = True"
| "is_summarizer_call e = False"

section \<open>The collaborators' wrappers\<close>

definition get_video_info :: "'t env \<Rightarrow> ustring \<Rightarrow> world \<Rightarrow> video_info option \<times> world" where
  "get_video_info env url w =
     (let command = [ascii ''yt-dlp'', ascii ''--skip-download'', ascii ''--print-json'', url];
          w = emit (Ext_subprocess_run command) w
      in case subprocess_run env command of
           CalledProcessError returncode stderr \<Rightarrow>
             (None,
              py_print (COLOR_RED @ ascii ''yt-dlp output:\<newline>'' @ stderr @ COLOR_RESET)
                (py_print (COLOR_RED @ ICON_ERROR @ ascii '' Error getting video info: yt-dlp returned ''
                             @ str_int returncode @ COLOR_RESET) w))
         | Run_raised e \<Rightarrow>
             (None,
              py_print (COLOR_RED @ ICON_ERROR @ ascii '' An unexpected error occurred: '' @ e
                          @ COLOR_RESET) w)
         | Completed stdout \<Rightarrow>
             (case json_loads env stdout of
                Loaded video_info \<Rightarrow> (Some video_info, w)
              | JSONDecodeError e \<Rightarrow>
                  (None,
                   py_print (COLOR_RED @ ascii ''yt-dlp output:\<newline>'' @ stdout @ COLOR_RESET)
                     (py_print (COLOR_RED @ ICON_ERROR @ ascii '' Error parsing yt-dlp output: '' @ e
                                  @ COLOR_RESET) w))))"

text \<open>
  \<open>download_captions\<close>: the loop appends one block of three lines per entry; any
  exception gives the error message instead.
\<close>

definition download_captions :: "'t env \<Rightarrow> ustring \<Rightarrow> ustring \<Rightarrow> world \<Rightarrow> ustring \<times> world" where
  "download_captions env video_id lang_code w =
     (case get_transcript env video_id [lang_code] of
        Inr transcript \<Rightarrow>
         (foldl (\<lambda>srt_captions entry.
                   let start_time = entry_start entry;
                       duration = entry_duration entry;
                       end_time = float_add env start_time duration;
                       text = py_replace 10 32 (entry_text entry)
                   in srt_captions @ float_str env start_time @ ascii '' --> ''
                        @ float_str env end_time @ ascii ''\<newline>'' @ text
                        @ ascii ''\<newline>\<newline>'')
                [] transcript,
          emit (Ext_get_transcript video_id [lang_code]) w)
      | Inl e \<Rightarrow>
         (COLOR_RED @ ICON_ERROR @ ascii '' An error occurred: '' @ e @ COLOR_RESET,
          emit (Ext_get_transcript video_id [lang_code]) w))"

text \<open>
  \<open>fetch_gpt3_response\<close>: the optional argument \<open>max_tokens\<close> is \<open>None\<close> when the caller
  leaves it out, and then has the default 4069.
\<close>

definition GPT_MODEL :: ustring where
  "GPT_MODEL = ascii ''chatgpt-4o-latest''"

definition SYSTEM_CONTENT :: ustring where
  "SYSTEM_CONTENT = ascii ''You are a helpful assistant whose job is to explain a shortened version of information to the user.''"

definition fetch_gpt3_response :: "'t env \<Rightarrow> ustring \<Rightarrow> int option \<Rightarrow> world \<Rightarrow> ustring \<times> world" where
  "fetch_gpt3_response env prompt max_tokens_arg w =
     (let max_tokens = (case max_tokens_arg of None \<Rightarrow> 4069 | Some n \<Rightarrow> n);
          w = emit (Ext_chat_completions_create GPT_MODEL SYSTEM_CONTENT prompt max_tokens) w
      in case chat_completions_create env GPT_MODEL SYSTEM_CONTENT prompt max_tokens of
           Inr content \<Rightarrow> (strip content, w)
         | Inl e \<Rightarrow>
            (COLOR_RED @ ICON_ERROR @ ascii '' Error fetching GPT-3 response: '' @ e @ COLOR_RESET,
             w))"

section \<open>The prompt builder\<close>

definition generate_standart_prompt :: "ustring \<Rightarrow> ustring \<Rightarrow> ustring" where
  "generate_standart_prompt video_title filtered_captions =
     ascii ''Please summarize the following video script in a few sentences. The name of the YouTube Video is ''
     @ video_title @ ascii ''. ''
     @ ascii ''Filter out only the information and do not include any possible sponsored segments. ''
     @ ascii ''ABSOLUTELY NEVER use phrases like 'the video explains', or 'the script argues', or 'the video discusses', ''
     @ ascii ''instead just focus on the raw information, as if you were asked to explain the topic to someone without sounding like you learnt it in a YouTube video. ''
     @ ascii ''Lastly again, completely ignore anything that seems like a sponsorship or a sponsored segment, or anything where someone directly talks about a product. ''
     @ ascii ''Don't leave out any facts in the video. Simply lay out the explained information for easy digestion. ''
     @ ascii ''Here is the related video script:\<newline>\<newline>'' @ filtered_captions
     @ ascii ''\<newline>\<newline>Summary:''"

definition generate_bulletpoint_prompt :: "ustring \<Rightarrow> ustring \<Rightarrow> ustring" where
  "generate_bulletpoint_prompt video_title filtered_captions =
     ascii ''Please summarize the following video script in concise bullet points using markdown syntax. The name of the YouTube Video is ''
     @ video_title @ ascii ''. ''
     @ ascii ''Filter out only the information and do not include any possible sponsored segments. ''
     @ ascii ''ABSOLUTELY NEVER use phrases like 'the video explains', or 'the script argues', or 'the video discusses', ''
     @ ascii ''instead just focus on the raw information, as if you were asked to explain the topic to someone without sounding like you learnt it in a YouTube video. ''
     @ ascii ''Lastly again, completely ignore anything that seems like a sponsorship or a sponsored segment, or anything where someone directly talks about a product. ''
     @ ascii ''Don't leave out any facts in the video. Simply lay out the explained information in bullet points for easy digestion and markdown formatting. ''
     @ ascii ''Here is the related video script:\<newline>\<newline>'' @ filtered_captions
     @ ascii ''\<newline>\<newline>Summary in bullet points and markdown syntax:''"

section \<open>The orchestrator\<close>

text \<open>
  \<open>get_video_summary\<close>, with its default arguments passed explicitly. The result is
  \<open>None\<close> or the summary; the world returned holds the global \<open>title\<close> and everything
  printed and called. Two blocks of its body are definitions of their own:
  \<open>build_prompt\<close> is the choice of the template by \<open>mode\<close> (the \<open>if\<close>, \<open>elif\<close>, \<open>else\<close>
  on \<open>mode\<close>, which reads the global \<open>title\<close>), and \<open>present_summary\<close> is the output of
  the summary after the last check (separator, heading, the summary, the copy to the
  clipboard).
\<close>

definition build_prompt :: "ustring \<Rightarrow> ustring \<Rightarrow> world \<Rightarrow> ustring \<times> world" where
  "build_prompt mode filtered_captions w =
     (if mode = ascii ''standart'' then
        (generate_standart_prompt (title w) filtered_captions,
         emit (Call_generate_standart_prompt (title w) filtered_captions) w)
      else if mode = ascii ''bulletpoint'' then
        (generate_bulletpoint_prompt (title w) filtered_captions,
         emit (Call_generate_bulletpoint_prompt (title w) filtered_captions) w)
      else
        (generate_standart_prompt (title w) filtered_captions,
         emit (Call_generate_standart_prompt (title w) filtered_captions)
           (py_print (COLOR_RED @ ICON_ERROR @ ascii '' Unknown mode selected: '' @ mode
                        @ ascii ''. Falling back to standart mode.'' @ COLOR_RESET) w)))"

definition present_summary :: "'t env \<Rightarrow> ustring \<Rightarrow> bool \<Rightarrow> ustring \<Rightarrow> world \<Rightarrow> world" where
  "present_summary env mode copy_to_clipboard response w =
     (let separator = COLOR_CYAN @ replicate 50 45 @ COLOR_RESET;
          w = py_print (ascii ''\<newline>'' @ separator) w;
          w = py_print (COLOR_GREEN @ ICON_CHECK @ ascii '' '' @ COLOR_BOLD
                          @ ascii ''Summary ('' @ str_capitalize env mode
                          @ ascii '' Mode):'' @ COLOR_RESET @ ascii ''\<newline>'') w;
          w = (if mode = ascii ''bulletpoint'' then
                 foldl (\<lambda>w line. py_print (ascii ''  '' @ line) w) w
                   (str_splitlines env response)
               else py_print (response @ ascii ''\<newline>'') w);
          w = py_print (separator @ ascii ''\<newline>'') w
      in if copy_to_clipboard then
           if CLIPBOARD_AVAILABLE env then
             py_print (COLOR_BLUE @ ICON_CLIPBOARD @ ascii '' Summary copied to clipboard''
                         @ COLOR_RESET)
               (emit (Ext_pyperclip_copy response) w)
           else
             py_print (COLOR_YELLOW @ ICON_INFO
                         @ ascii '' Clipboard copy requested but 'pyperclip' module is not installed.''
                         @ COLOR_RESET) w
         else w)"

definition get_video_summary ::
  "'t env \<Rightarrow> ustring \<Rightarrow> ustring \<Rightarrow> ustring \<Rightarrow> bool \<Rightarrow> world \<Rightarrow> ustring option \<times> world" where
  "get_video_summary env video_url video_lang mode copy_to_clipboard w =
     (let w = py_print (COLOR_CYAN @ ICON_VIDEO @ ascii '' Processing video: '' @ COLOR_YELLOW
                          @ video_url @ COLOR_CYAN @ ascii '', Language: '' @ COLOR_YELLOW
                          @ video_lang @ COLOR_CYAN @ ascii '', Mode: '' @ COLOR_YELLOW @ mode
                          @ COLOR_RESET) w;
          (video_info, w) = get_video_info env video_url (emit (Call_get_video_info video_url) w)
      in case video_info of
           None \<Rightarrow> (None, w)
         | Some video_info \<Rightarrow>
            (let w = w\<lparr>title := info_title video_info\<rparr>;
                 video_id = info_id video_info;
                 w = py_print (COLOR_BLUE @ ICON_DOWNLOAD @ ascii '' Downloading Captions...''
                                 @ COLOR_RESET) w;
                 (captions, w) = download_captions env video_id video_lang
                                   (emit (Call_download_captions video_id video_lang) w)
             in if py_in (ascii ''Error occurred'') captions then
                  (None,
                   py_print captions
                     (py_print (COLOR_RED @ ICON_ERROR @ ascii '' Failed to download captions.''
                                  @ COLOR_RESET) w))
                else
                  (let w = py_print (COLOR_YELLOW @ ICON_FILTER @ ascii '' Filtering Captions...''
                                       @ COLOR_RESET) w;
                       filtered_captions = filter_captions captions;
                       w = emit (Call_filter_captions captions) w;
                       (prompt, w) = build_prompt mode filtered_captions w;
                       w = py_print (COLOR_MAGENTA @ ICON_OPENAI @ ascii '' Fetching OpenAI Response...''
                                       @ COLOR_RESET) w;
                       (response, w) = fetch_gpt3_response env prompt None
                                         (emit (Call_fetch_gpt3_response prompt None) w)
                   in if py_in (ascii ''Error fetching GPT-3 response'') response then
                        (None,
                         py_print response
                           (py_print (COLOR_RED @ ICON_ERROR @ ascii '' Failed to fetch OpenAI Response.''
                                        @ COLOR_RESET) w))
                      else
                        (Some response,
                         present_summary env mode copy_to_clipboard response w))))"

section \<open>Caption blocks\<close>

text \<open>
  A caption text in blocks of three lines: a block is its time line and its text line,
  and is followed by an empty line. \<open>block_lines\<close> are the lines of such a text,
  \<open>core_lines\<close> the same lines without the final empty one, and \<open>text_lines_from k\<close>
  is the selection \<open>filter_captions\<close> makes, for lines numbered from \<open>k\<close>.
\<close>

definition block_lines :: "(ustring \<times> ustring) list \<Rightarrow> ustring list" where
  "block_lines blocks = concat (map (\<lambda>(t, x). [t, x, []]) blocks)"

fun core_lines :: "(ustring \<times> ustring) list \<Rightarrow> ustring list" where
  "core_lines [] = []"
| "core_lines [(t, x)] = [t, x]"
| "core_lines ((t, x) # b # bs) = t # x # [] # core_lines (b # bs)"

definition text_lines_from :: "nat \<Rightarrow> ustring list \<Rightarrow> ustring list" where
  "text_lines_from k lines =
     map snd (filter (\<lambda>(i, line). (int i - 1) mod 3 = 0) (enumerate k lines))"

text \<open>
  The block \<open>download_captions\<close> writes for one entry, as the pair of its time line and
  its text line.
\<close>

definition entry_block :: "'t env \<Rightarrow> 't entry \<Rightarrow> ustring \<times> ustring" where
  "entry_block env entry =
     (float_str env (entry_start entry) @ ascii '' --> ''
        @ float_str env (float_add env (entry_start entry) (entry_duration entry)),
      py_replace 10 32 (entry_text entry))"

section \<open>Test doubles\<close>

text \<open>
  An environment for concrete runs: times are counted in tenths of a second and printed
  with one decimal; the metadata resolver, the transcript source and the completion
  service answer what they are given.
\<close>

definition stub_float_str :: "nat \<Rightarrow> ustring" where
  "stub_float_str n = str_nat (n div 10) @ ascii ''.'' @ str_nat (n mod 10)"

definition stub_env ::
  "run_outcome \<Rightarrow> ustring + nat entry list \<Rightarrow> ustring + ustring \<Rightarrow> nat env" where
  "stub_env run transcript completion =
     \<lparr>subprocess_run = (\<lambda>command. run),
      json_loads = (\<lambda>s. Loaded \<lparr>info_title = ascii ''Demo'', info_id = ascii ''abc123''\<rparr>),
      get_transcript = (\<lambda>video_id languages. transcript),
      chat_completions_create = (\<lambda>model system user max_tokens. completion),
      float_add = (+),
      float_str = stub_float_str,
      str_capitalize = (\<lambda>s. s),
      str_splitlines = (\<lambda>s. [s]),
      CLIPBOARD_AVAILABLE = False\<rparr>"

definition world0 :: world where
  "world0 = \<lparr>title = [], trace = []\<rparr>"

definition greeting :: "nat entry list" where
  "greeting =
     [\<lparr>entry_start = 0, entry_duration = 20, entry_text = ascii ''Hi there''\<rparr>,
      \<lparr>entry_start = 20, entry_duration = 30, entry_text = ascii ''General Kenobi''\<rparr>]"

definition demo_url :: ustring where
  "demo_url = ascii ''https://youtu.be/abc123''"

definition demo_env :: "nat env" where
  "demo_env = stub_env (Completed []) (Inr greeting) (Inr (ascii ''A greeting exchange occurs.''))"

definition demo_info :: video_info where
  "demo_info = \<lparr>info_title = ascii ''Demo'', info_id = ascii ''abc123''\<rparr>"

section \<open>Events of the wrappers\<close>

text \<open>
  The events that \<open>get_video_info\<close> and \<open>present_summary\<close> add to the trace, read off
  a run from the empty trace.
\<close>

definition get_video_info_events :: "'t env \<Rightarrow> ustring \<Rightarrow> event list" where
  "get_video_info_events env url = trace (snd (get_video_info env url \<lparr>title = [], trace = []\<rparr>))"

definition present_events :: "'t env \<Rightarrow> ustring \<Rightarrow> bool \<Rightarrow> ustring \<Rightarrow> event list" where
  "present_events env mode copy response =
     trace (present_summary env mode copy response \<lparr>title = [], trace = []\<rparr>)"

section \<open>Facts about the string operations\<close>

lemma py_split_no_sep: "sep \<notin> set l \<Longrightarrow> py_split sep l = [l]"
  by (induction l) auto

lemma py_split_append: "sep \<notin> set l \<Longrightarrow> py_split sep (l @ sep # r) = l # py_split sep r"
  by (induction l) auto

lemma py_join_Cons: "ls \<noteq> [] \<Longrightarrow> py_join sep (l # ls) = l @ sep @ py_join sep ls"
  by (cases ls) auto

lemma py_split_join:
  "ls \<noteq> [] \<Longrightarrow> \<forall>l\<in>set ls. c \<notin> set l \<Longrightarrow> py_split c (py_join [c] ls) = ls"
proof (induction ls)
  case Nil
  then show ?case by simp
next
  case (Cons l ls)
  show ?case
  proof (cases "ls = []")
    case True
    with Cons.prems show ?thesis by (simp add: py_split_no_sep)
  next
    case False
    with Cons show ?thesis by (simp add: py_join_Cons py_split_append)
  qed
qed

lemma py_join_last: "ls \<noteq> [] \<Longrightarrow> \<exists>pre. py_join sep ls = pre @ last ls"
proof (induction ls)
  case Nil
  then show ?case by simp
next
  case (Cons l ls)
  show ?case
  proof (cases "ls = []")
    case True
    then show ?thesis by simp
  next
    case False
    with Cons obtain pre where "py_join sep ls = pre @ last ls" by auto
    with False show ?thesis by (simp add: py_join_Cons)
  qed
qed

lemma strip_mid:
  assumes "\<exists>c\<in>set a. \<not> py_isspace c" and "b \<noteq> []" and "\<not> py_isspace (last b)"
    and "\<forall>c\<in>set ws. py_isspace c"
  shows "strip (a @ m @ b @ ws) = dropWhile py_isspace a @ m @ b"
proof -
  define r where "r = rev (dropWhile py_isspace a @ m)"
  from assms(1) have 1: "dropWhile py_isspace (a @ m @ b @ ws) = dropWhile py_isspace a @ m @ b @ ws"
    by (auto simp: dropWhile_append1)
  have 2: "rev (dropWhile py_isspace a @ m @ b @ ws) = rev ws @ rev b @ r"
    by (simp add: r_def)
  have 3: "dropWhile py_isspace (rev ws @ rev b @ r) = dropWhile py_isspace (rev b @ r)"
    by (rule dropWhile_append2) (use assms(4) in auto)
  from assms(2,3) have 4: "dropWhile py_isspace (rev b @ r) = rev b @ r"
    by (cases b rule: rev_cases) auto
  show ?thesis
    unfolding strip_def 1 2 3 4 by (simp add: r_def)
qed

lemma text_lines_from_Nil: "text_lines_from k [] = []"
  by (simp add: text_lines_from_def)

lemma text_lines_from_Cons:
  "text_lines_from k (l # ls) =
     (if (int k - 1) mod 3 = 0 then l # text_lines_from (Suc k) ls else text_lines_from (Suc k) ls)"
  by (simp add: text_lines_from_def)

lemma text_lines_shift: "text_lines_from (k + 3) ls = text_lines_from k ls"
proof (induction ls arbitrary: k)
  case Nil
  then show ?case by (simp add: text_lines_from_Nil)
next
  case (Cons l ls)
  have m: "((int (k + 3) - 1) mod 3 = 0) = ((int k - 1) mod 3 = 0)" by presburger
  from Cons[of "Suc k"] have "text_lines_from (Suc (k + 3)) ls = text_lines_from (Suc k) ls"
    by simp
  then show ?case
    unfolding text_lines_from_Cons m by simp
qed

lemma text_lines_block: "text_lines_from 0 (t # x # e # ls) = x # text_lines_from 0 ls"
proof -
  have "text_lines_from 0 (t # x # e # ls) = x # text_lines_from (0 + 3) ls"
    by (simp add: text_lines_from_Cons numeral_3_eq_3)
  then show ?thesis by (simp only: text_lines_shift)
qed

lemma text_lines_core: "text_lines_from 0 (core_lines blocks) = map snd blocks"
proof (induction blocks rule: core_lines.induct)
  case 1
  show ?case by (simp add: text_lines_from_Nil)
next
  case (2 t x)
  show ?case by (simp add: text_lines_from_Cons text_lines_from_Nil)
next
  case (3 t x b bs)
  then show ?case by (simp add: text_lines_block)
qed

lemma text_lines_head: "text_lines_from 0 (a # ls) = text_lines_from 0 (b # ls)"
  by (simp add: text_lines_from_Cons)

lemma filter_captions_text_lines:
  "filter_captions captions = py_join (ascii '' '') (text_lines_from 0 (py_split 10 (strip captions)))"
  by (simp add: filter_captions_def text_lines_from_def)


lemma core_lines_Cons:
  "\<exists>rest. core_lines ((t, x) # bs) = t # rest \<and> rest \<noteq> [] \<and> last rest = snd (last ((t, x) # bs))
      \<and> set rest \<subseteq> insert [] (snd ` set ((t, x) # bs) \<union> fst ` set bs)"
proof (induction bs arbitrary: t x)
  case Nil
  show ?case by simp
next
  case (Cons b bs)
  obtain t' x' where b: "b = (t', x')" by (cases b)
  from Cons[of t' x'] obtain rest where
    r: "core_lines ((t', x') # bs) = t' # rest" "rest \<noteq> []" "last rest = snd (last ((t', x') # bs))"
       "set rest \<subseteq> insert [] (snd ` set ((t', x') # bs) \<union> fst ` set bs)"
    by blast
  show ?case
    unfolding b using r by (intro exI[of _ "x # [] # t' # rest"]) auto
qed

lemma filter_captions_core:
  assumes ne: "blocks \<noteq> []"
    and nl: "\<forall>(t, x)\<in>set blocks. 10 \<notin> set t \<and> 10 \<notin> set x"
    and first: "\<exists>c\<in>set (fst (hd blocks)). \<not> py_isspace c"
    and last1: "snd (last blocks) \<noteq> []"
    and last2: "\<not> py_isspace (last (snd (last blocks)))"
    and ws: "\<forall>c\<in>set ws. py_isspace c"
  shows "filter_captions (py_join [10] (core_lines blocks) @ ws) = py_join (ascii '' '') (map snd blocks)"
proof -
  from ne obtain t x bs where blocks: "blocks = (t, x) # bs" by (cases blocks) auto
  from core_lines_Cons[of t x bs] obtain rest where
    r: "core_lines blocks = t # rest" "rest \<noteq> []" "last rest = snd (last blocks)"
       "set rest \<subseteq> insert [] (snd ` set blocks \<union> fst ` set bs)"
    unfolding blocks by blast
  from py_join_last[OF r(2), of "[10]"] obtain pre where pre: "py_join [10] rest = pre @ last rest"
    by blast
  let ?t' = "dropWhile py_isspace t"
  have j: "py_join [10] (core_lines blocks) @ ws = t @ (10 # pre) @ snd (last blocks) @ ws"
    using r(2) by (simp add: r(1) py_join_Cons pre r(3))
  have s: "strip (py_join [10] (core_lines blocks) @ ws) = ?t' @ (10 # pre) @ snd (last blocks)"
    unfolding j using first last1 last2 ws by (intro strip_mid) (simp_all add: blocks)
  have j': "?t' @ (10 # pre) @ snd (last blocks) = py_join [10] (?t' # rest)"
    using r(2) by (simp add: py_join_Cons pre r(3))
  have t': "10 \<notin> set ?t'"
    using nl set_dropWhileD[of 10 py_isspace t] by (auto simp: blocks)
  have rest_ok: "\<forall>l\<in>set rest. 10 \<notin> set l"
    using nl r(4) by (fastforce simp: blocks)
  have sp: "py_split 10 (py_join [10] (?t' # rest)) = ?t' # rest"
    using t' rest_ok by (intro py_split_join) auto
  have tl: "text_lines_from 0 (?t' # rest) = text_lines_from 0 (core_lines blocks)"
    unfolding r(1) by (rule text_lines_head)
  show ?thesis
    unfolding filter_captions_text_lines s j' sp tl text_lines_core ..
qed


lemma ascii_nl: "ascii ''\<newline>'' = [10]"
  by (simp add: ascii_def)

lemma strip_whitespace: "\<forall>c\<in>set ws. py_isspace c \<Longrightarrow> strip ws = []"
proof -
  assume "\<forall>c\<in>set ws. py_isspace c"
  then have "dropWhile py_isspace ws = []" by simp
  then show ?thesis by (simp only: strip_def rev.simps dropWhile.simps)
qed

lemma filter_captions_whitespace:
  "\<forall>c\<in>set ws. py_isspace c \<Longrightarrow> filter_captions ws = []"
  by (simp add: filter_captions_text_lines strip_whitespace text_lines_from_Cons text_lines_from_Nil)

lemma block_lines_join:
  "blocks \<noteq> [] \<Longrightarrow> py_join [10] (block_lines blocks) = py_join [10] (core_lines blocks) @ [10]"
proof (induction blocks rule: core_lines.induct)
  case 1
  then show ?case by simp
next
  case (2 t x)
  show ?case by (simp add: block_lines_def)
next
  case (3 t x b bs)
  obtain t' x' where b: "b = (t', x')" by (cases b)
  from 3 have "py_join [10] (block_lines (b # bs)) = py_join [10] (core_lines (b # bs)) @ [10]"
    by simp
  moreover have "block_lines ((t, x) # b # bs) = t # x # [] # block_lines (b # bs)"
    by (simp add: block_lines_def)
  moreover have "block_lines (b # bs) \<noteq> []" "core_lines (b # bs) \<noteq> []"
    by (cases bs; simp add: block_lines_def b)+
  ultimately show ?case
    by (simp add: py_join_Cons)
qed

lemma blocks_concat:
  "blocks \<noteq> [] \<Longrightarrow>
     concat (map (\<lambda>(t, x). t @ [10] @ x @ [10, 10]) blocks) = py_join [10] (core_lines blocks) @ [10, 10]"
proof (induction blocks rule: core_lines.induct)
  case 1
  then show ?case by simp
next
  case (2 t x)
  show ?case by simp
next
  case (3 t x b bs)
  obtain t' x' where b: "b = (t', x')" by (cases b)
  have "core_lines (b # bs) \<noteq> []"
    by (cases bs; simp add: b)
  with 3 show ?case
    by (simp add: py_join_Cons)
qed

lemma foldl_append: "foldl (\<lambda>acc e. acc @ f e) a es = a @ concat (map f es)"
  by (induction es arbitrary: a) auto

lemma download_captions_blocks:
  "get_transcript env video_id [lang_code] = Inr transcript \<Longrightarrow>
     fst (download_captions env video_id lang_code w) =
       concat (map (\<lambda>(t, x). t @ [10] @ x @ [10, 10]) (map (entry_block env) transcript))"
proof -
  have a: "ascii ''\<newline>\<newline>'' = [10, 10]" "ascii ''\<newline>'' = [10]"
    by (simp_all add: ascii_def)
  assume "get_transcript env video_id [lang_code] = Inr transcript"
  then show ?thesis
    unfolding download_captions_def
    by (simp add: Let_def foldl_append[where a="[]", simplified] a entry_block_def comp_def)
qed

lemma str_nat_digits: "c \<in> set (str_nat n) \<Longrightarrow> 48 \<le> c \<and> c \<le> 57"
proof (induction n rule: str_nat.induct)
  case (1 n)
  show ?case
  proof (cases "n < 10")
    case True
    with "1.prems" show ?thesis by (simp add: str_nat.simps[of n])
  next
    case False
    have "n mod 10 < 10" by simp
    with False "1.prems" "1.IH" show ?thesis
      by (auto simp: str_nat.simps[of n])
  qed
qed

lemma stub_float_str_no_newline: "10 \<notin> set (stub_float_str t)"
  using str_nat_digits[of 10] by (auto simp: stub_float_str_def ascii_def)

lemma py_replace_no_newline: "10 \<notin> set (py_replace 10 32 s)"
  by (auto simp: py_replace_def)

lemma py_replace_last:
  "s \<noteq> [] \<Longrightarrow> \<not> py_isspace (last s) \<Longrightarrow>
     py_replace 10 32 s \<noteq> [] \<and> \<not> py_isspace (last (py_replace 10 32 s))"
  by (auto simp: py_replace_def last_map py_isspace_def)

lemma entry_block_time: "\<exists>c\<in>set (fst (entry_block env e)). \<not> py_isspace c"
  by (rule bexI[of _ 45]) (simp_all add: entry_block_def ascii_def py_isspace_def)

section \<open>The caption filter on blocks of three lines\<close>

text \<open>
  C2, as stated: for every caption text of repeated blocks (time line, text line, empty
  line) the filter returns the text lines joined by single spaces. This fails where
  \<open>strip\<close> removes more than the final newline: a last text line that ends in a space
  loses it.
\<close>

theorem filter_captions_blocks_counterexample:
  "10 \<notin> set (ascii ''0 --> 1'') \<and> 10 \<notin> set (ascii ''Hello'') \<and>
   10 \<notin> set (ascii ''1 --> 2'') \<and> 10 \<notin> set (ascii ''World '') \<and>
   filter_captions (py_join (ascii ''\<newline>'')
      (block_lines [(ascii ''0 --> 1'', ascii ''Hello''), (ascii ''1 --> 2'', ascii ''World '')]))
    \<noteq> py_join (ascii '' '')
        (map snd [(ascii ''0 --> 1'', ascii ''Hello''), (ascii ''1 --> 2'', ascii ''World '')])"
  by code_simp

text \<open>
  C2, amended: for every caption text of repeated blocks (time line, text line, empty
  line; no line contains a newline) whose first time line is not blank and whose last
  text line is not empty and does not end in whitespace, \<open>filter_captions\<close> returns
  exactly the text line of each block, joined by single spaces, in the order of the
  blocks. The text without any block gives the empty string.
\<close>

theorem filter_captions_blocks:
  assumes "\<forall>(t, x)\<in>set blocks. 10 \<notin> set t \<and> 10 \<notin> set x"
    and "blocks \<noteq> [] \<longrightarrow>
           (\<exists>c\<in>set (fst (hd blocks)). \<not> py_isspace c) \<and>
           snd (last blocks) \<noteq> [] \<and> \<not> py_isspace (last (snd (last blocks)))"
  shows "filter_captions (py_join (ascii ''\<newline>'') (block_lines blocks)) =
           py_join (ascii '' '') (map snd blocks)"
proof (cases "blocks = []")
  case True
  then show ?thesis
    by (simp add: block_lines_def filter_captions_whitespace)
next
  case False
  have "filter_captions (py_join [10] (core_lines blocks) @ [10]) =
          py_join (ascii '' '') (map snd blocks)"
    using False assms by (intro filter_captions_core) (auto simp: py_isspace_def)
  with False show ?thesis
    by (simp add: ascii_nl block_lines_join)
qed

text \<open>
  The example of the specification: the lines \<open>0 --> 1\<close>, \<open>Hello\<close>, the empty line,
  \<open>1 --> 2\<close>, \<open>World\<close>, the empty line give \<open>Hello World\<close>.
\<close>

theorem filter_captions_blocks_witness:
  "filter_captions (py_join (ascii ''\<newline>'')
      [ascii ''0 --> 1'', ascii ''Hello'', [], ascii ''1 --> 2'', ascii ''World'', []])
    = ascii ''Hello World''"
  using filter_captions_blocks
    [of "[(ascii ''0 --> 1'', ascii ''Hello''), (ascii ''1 --> 2'', ascii ''World'')]"]
  by (simp add: block_lines_def ascii_def py_isspace_def)

text \<open>
  C3: \<open>filter_captions\<close> is defined on every string, and the empty string gives the
  empty string. None of its steps can raise on a string: \<open>strip\<close>, \<open>split\<close> with the
  non-empty separator, \<open>%\<close> with the divisor 3 and \<open>join\<close> of strings; so the model is a
  function without an error result, and its value at the empty string is computed.
\<close>

theorem filter_captions_empty: "filter_captions [] = []"
  by (simp add: filter_captions_whitespace)

section \<open>Round trip of the caption text\<close>

text \<open>
  C7, as stated: for every transcript, filtering the text written by
  \<open>download_captions\<close> gives the texts of the entries, newlines replaced by spaces,
  joined by single spaces. This fails when the last text ends in whitespace:
  \<open>filter_captions\<close> strips the whole text first, and the final space is lost.
\<close>

theorem download_filter_roundtrip_counterexample:
  "filter_captions (fst (download_captions
      (stub_env (Completed [])
         (Inr [\<lparr>entry_start = 0, entry_duration = 20, entry_text = ascii ''Hi there''\<rparr>,
               \<lparr>entry_start = 20, entry_duration = 30,
                entry_text = ascii ''General Kenobi ''\<rparr>])
         (Inr []))
      (ascii ''abc123'') (ascii ''en'') world0))
   \<noteq> py_join (ascii '' '')
       (map (\<lambda>e. py_replace 10 32 (entry_text e))
         [\<lparr>entry_start = 0, entry_duration = 20, entry_text = ascii ''Hi there''\<rparr>,
          \<lparr>entry_start = 20, entry_duration = (30::nat),
           entry_text = ascii ''General Kenobi ''\<rparr>])"
  by code_simp

text \<open>
  C7, amended: for every transcript whose last entry has a text that is not empty and
  does not end in whitespace (and for the empty transcript), filtering the text written
  by \<open>download_captions\<close> gives exactly the texts of the entries, each with its
  newlines replaced by spaces, joined by single spaces in the order of the entries. The
  formatting of a time is assumed to produce no newline.
\<close>

theorem download_filter_roundtrip:
  assumes tr: "get_transcript env video_id [lang_code] = Inr transcript"
    and fs: "\<forall>t. 10 \<notin> set (float_str env t)"
    and lst: "transcript \<noteq> [] \<longrightarrow>
               entry_text (last transcript) \<noteq> [] \<and>
               \<not> py_isspace (last (entry_text (last transcript)))"
  shows "filter_captions (fst (download_captions env video_id lang_code w)) =
           py_join (ascii '' '') (map (\<lambda>e. py_replace 10 32 (entry_text e)) transcript)"
proof (cases "transcript = []")
  case True
  with tr show ?thesis
    by (simp add: download_captions_blocks filter_captions_whitespace)
next
  case False
  let ?blocks = "map (entry_block env) transcript"
  have ne: "?blocks \<noteq> []" using False by simp
  have nl: "\<forall>(t, x)\<in>set ?blocks. 10 \<notin> set t \<and> 10 \<notin> set x"
    using fs by (auto simp: entry_block_def ascii_def py_replace_no_newline)
  have first: "\<exists>c\<in>set (fst (hd ?blocks)). \<not> py_isspace c"
    using False entry_block_time[of env "hd transcript"] by (auto simp: hd_map)
  have l: "snd (last ?blocks) = py_replace 10 32 (entry_text (last transcript))"
    using False by (simp add: last_map entry_block_def)
  have last1: "snd (last ?blocks) \<noteq> []" and last2: "\<not> py_isspace (last (snd (last ?blocks)))"
    unfolding l using False lst py_replace_last by blast+
  have ws: "\<forall>c\<in>set [10, 10]. py_isspace c"
    by (simp add: py_isspace_def)
  have sn: "map snd ?blocks = map (\<lambda>e. py_replace 10 32 (entry_text e)) transcript"
    by (simp add: entry_block_def comp_def)
  from filter_captions_core[OF ne nl first last1 last2 ws] show ?thesis
    using ne by (simp only: download_captions_blocks[OF tr] blocks_concat[OF ne] sn)
qed

theorem download_filter_roundtrip_witness:
  "filter_captions (fst (download_captions (stub_env (Completed []) (Inr greeting) (Inr []))
      (ascii ''abc123'') (ascii ''en'') world0)) = ascii ''Hi there General Kenobi''"
  using download_filter_roundtrip
    [of "stub_env (Completed []) (Inr greeting) (Inr [])" "ascii ''abc123''" "ascii ''en''"
        greeting world0]
  by (simp add: stub_env_def stub_float_str_no_newline greeting_def ascii_def py_isspace_def
      py_replace_def)

section \<open>Facts about the wrappers and the orchestrator\<close>

lemma trace_emit: "trace (emit e w) = trace w @ [e]"
  by (simp add: emit_def)

lemma title_emit: "title (emit e w) = title w"
  by (simp add: emit_def)

lemma trace_py_print: "trace (py_print s w) = trace w @ [Print s]"
  by (simp add: py_print_def emit_def)

lemma title_py_print: "title (py_print s w) = title w"
  by (simp add: py_print_def emit_def)

lemma trace_print_lines:
  "trace (foldl (\<lambda>w line. py_print (f line) w) w ls) = trace w @ map (\<lambda>line. Print (f line)) ls"
  by (induction ls arbitrary: w) (simp_all add: trace_py_print)

lemma title_print_lines: "title (foldl (\<lambda>w line. py_print (f line) w) w ls) = title w"
  by (induction ls arbitrary: w) (simp_all add: title_py_print)

lemma get_video_info_fst: "fst (get_video_info env url w) = fst (get_video_info env url w')"
  by (simp add: get_video_info_def Let_def split: run_outcome.splits loads_outcome.splits)

lemma get_video_info_title: "title (snd (get_video_info env url w)) = title w"
  by (simp add: get_video_info_def Let_def title_py_print title_emit
      split: run_outcome.splits loads_outcome.splits)

lemma get_video_info_trace:
  "trace (snd (get_video_info env url w)) = trace w @ get_video_info_events env url"
  by (simp add: get_video_info_events_def get_video_info_def Let_def trace_py_print trace_emit
      split: run_outcome.splits loads_outcome.splits)

lemma get_video_info_events_kinds:
  "filter is_caption_fetcher_call (get_video_info_events env url) = []"
  "filter is_prompt_builder_call (get_video_info_events env url) = []"
  "filter is_summarizer_call (get_video_info_events env url) = []"
  by (simp_all add: get_video_info_events_def get_video_info_def Let_def trace_py_print trace_emit
      split: run_outcome.splits loads_outcome.splits)

lemma download_captions_fst:
  "fst (download_captions env v l w) = fst (download_captions env v l w')"
  by (simp add: download_captions_def split: sum.splits)

lemma download_captions_snd:
  "snd (download_captions env v l w) = emit (Ext_get_transcript v [l]) w"
  by (simp add: download_captions_def split: sum.splits)

lemma fetch_gpt3_response_fst:
  "fst (fetch_gpt3_response env prompt m w) =
     (case chat_completions_create env GPT_MODEL SYSTEM_CONTENT prompt
             (case m of None \<Rightarrow> 4069 | Some n \<Rightarrow> n) of
        Inr content \<Rightarrow> strip content
      | Inl e \<Rightarrow> COLOR_RED @ ICON_ERROR @ ascii '' Error fetching GPT-3 response: '' @ e @ COLOR_RESET)"
  by (simp add: fetch_gpt3_response_def Let_def split: sum.splits)

lemma fetch_gpt3_response_snd:
  "snd (fetch_gpt3_response env prompt m w) =
     emit (Ext_chat_completions_create GPT_MODEL SYSTEM_CONTENT prompt
             (case m of None \<Rightarrow> 4069 | Some n \<Rightarrow> n)) w"
  by (simp add: fetch_gpt3_response_def Let_def split: sum.splits)

lemma present_summary_title: "title (present_summary env mode copy response w) = title w"
  by (simp add: present_summary_def Let_def title_py_print title_emit title_print_lines)

lemma present_summary_trace:
  "trace (present_summary env mode copy response w) = trace w @ present_events env mode copy response"
  by (simp add: present_events_def present_summary_def Let_def trace_py_print trace_emit
      trace_print_lines)

lemma present_events_kinds:
  "filter is_caption_fetcher_call (present_events env mode copy response) = []"
  "filter is_prompt_builder_call (present_events env mode copy response) = []"
  "filter is_summarizer_call (present_events env mode copy response) = []"
  by (simp_all add: present_events_def present_summary_def Let_def trace_py_print trace_emit
      trace_print_lines comp_def)

lemma build_prompt_fst:
  "fst (build_prompt mode filtered w) =
     (if mode = ascii ''bulletpoint'' then generate_bulletpoint_prompt (title w) filtered
      else generate_standart_prompt (title w) filtered)"
  by (simp add: build_prompt_def ascii_def)

lemma build_prompt_title: "title (snd (build_prompt mode filtered w)) = title w"
  by (simp add: build_prompt_def title_emit title_py_print)

lemma build_prompt_trace:
  "trace (snd (build_prompt mode filtered w)) = trace w @
     (if mode = ascii ''standart'' then [Call_generate_standart_prompt (title w) filtered]
      else if mode = ascii ''bulletpoint'' then [Call_generate_bulletpoint_prompt (title w) filtered]
      else [Print (COLOR_RED @ ICON_ERROR @ ascii '' Unknown mode selected: '' @ mode
                     @ ascii ''. Falling back to standart mode.'' @ COLOR_RESET),
            Call_generate_standart_prompt (title w) filtered])"
  by (simp add: build_prompt_def trace_emit trace_py_print)

lemmas world_simps =
  trace_emit title_emit trace_py_print title_py_print
  get_video_info_title get_video_info_trace download_captions_snd fetch_gpt3_response_snd
  present_summary_title present_summary_trace build_prompt_title build_prompt_trace

lemma standart_neq_bulletpoint: "ascii ''standart'' \<noteq> ascii ''bulletpoint''"
  by (simp add: ascii_def)

lemma filter_new_events:
  "trace w' = trace w @ evs \<Longrightarrow> filter P (new_events w w') = filter P evs"
  by (simp add: new_events_def)

lemma py_in_sublist: "py_in pat s \<longleftrightarrow> sublist pat s"
  by (induction s) (simp_all add: sublist_Cons_right)

lemma dropWhile_keeps:
  "pat \<noteq> [] \<Longrightarrow> \<not> P (hd pat) \<Longrightarrow> \<exists>pre'. dropWhile P (pre @ pat @ suf) = pre' @ pat @ suf"
proof (induction pre)
  case Nil
  then have "dropWhile P (pat @ suf) = pat @ suf" by (cases pat) auto
  then show ?case by (intro exI[of _ "[]"]) simp
next
  case (Cons a pre)
  then obtain pre' where p: "dropWhile P (pre @ pat @ suf) = pre' @ pat @ suf" by blast
  show ?case
  proof (cases "P a")
    case True
    with p show ?thesis by (intro exI[of _ pre']) simp
  next
    case False
    then show ?thesis by (intro exI[of _ "a # pre"]) simp
  qed
qed

lemma py_in_strip:
  assumes "py_in pat s" and "pat \<noteq> []" and "\<not> py_isspace (hd pat)" and "\<not> py_isspace (last pat)"
  shows "py_in pat (strip s)"
proof -
  from assms(1) obtain pre suf where s: "s = pre @ pat @ suf"
    by (auto simp: py_in_sublist sublist_def)
  from dropWhile_keeps[of pat py_isspace pre suf] assms(2,3) obtain pre' where
    1: "dropWhile py_isspace (pre @ pat @ suf) = pre' @ pat @ suf" by blast
  have "rev pat \<noteq> []" "\<not> py_isspace (hd (rev pat))"
    using assms(2,4) by (simp_all add: hd_rev)
  with dropWhile_keeps[of "rev pat" py_isspace "rev suf" "rev pre'"] obtain suf' where
    2: "dropWhile py_isspace (rev suf @ rev pat @ rev pre') = suf' @ rev pat @ rev pre'" by blast
  have "strip s = pre' @ pat @ rev suf'"
    by (simp add: strip_def s 1 2)
  then show ?thesis
    by (auto simp: py_in_sublist sublist_def)
qed

lemma error_marker_ends:
  "ascii ''Error fetching GPT-3 response'' \<noteq> []"
  "\<not> py_isspace (hd (ascii ''Error fetching GPT-3 response''))"
  "\<not> py_isspace (last (ascii ''Error fetching GPT-3 response''))"
  by (simp_all add: ascii_def py_isspace_def)

lemma error_message_has_marker:
  "py_in (ascii ''Error fetching GPT-3 response'')
     (COLOR_RED @ ICON_ERROR @ ascii '' Error fetching GPT-3 response: '' @ e @ COLOR_RESET)"
proof -
  have "ascii '' Error fetching GPT-3 response: '' =
          [32] @ ascii ''Error fetching GPT-3 response'' @ [58, 32]"
    by (simp add: ascii_def)
  then have "COLOR_RED @ ICON_ERROR @ ascii '' Error fetching GPT-3 response: '' @ e @ COLOR_RESET =
      (COLOR_RED @ ICON_ERROR @ [32]) @ ascii ''Error fetching GPT-3 response'' @ ([58, 32] @ e @ COLOR_RESET)"
    by simp
  then show ?thesis
    unfolding py_in_sublist sublist_def by blast
qed

lemma get_video_summary_fst_none:
  assumes "fst (get_video_info env video_url w) = None"
  shows "fst (get_video_summary env video_url video_lang mode copy_to_clipboard w) = None"
proof -
  have none: "fst (get_video_info env video_url w') = None" for w'
    using assms by (simp only: get_video_info_fst[of env video_url w' w])
  show ?thesis
    unfolding get_video_summary_def
    by (simp only: Let_def case_prod_beta none option.case fst_conv snd_conv)
qed

lemma get_video_summary_fst_some:
  assumes "fst (get_video_info env video_url w) = Some info"
  shows "fst (get_video_summary env video_url video_lang mode copy_to_clipboard w) =
     (let captions = fst (download_captions env (info_id info) video_lang w);
          prompt = (if mode = ascii ''bulletpoint'' then generate_bulletpoint_prompt
                    else generate_standart_prompt) (info_title info) (filter_captions captions);
          response =
            (case chat_completions_create env GPT_MODEL SYSTEM_CONTENT prompt 4069 of
               Inr content \<Rightarrow> strip content
             | Inl e \<Rightarrow> COLOR_RED @ ICON_ERROR @ ascii '' Error fetching GPT-3 response: '' @ e
                          @ COLOR_RESET)
      in if py_in (ascii ''Error occurred'') captions then None
         else if py_in (ascii ''Error fetching GPT-3 response'') response then None
         else Some response)"
proof -
  have some: "fst (get_video_info env video_url w') = Some info" for w'
    using assms by (simp only: get_video_info_fst[of env video_url w' w])
  define captions where "captions = fst (download_captions env (info_id info) video_lang w)"
  have dc: "fst (download_captions env (info_id info) video_lang w') = captions" for w'
    unfolding captions_def by (rule download_captions_fst)
  have "fst (get_video_summary env video_url video_lang mode copy_to_clipboard w) =
     (let prompt = (if mode = ascii ''bulletpoint'' then generate_bulletpoint_prompt
                    else generate_standart_prompt) (info_title info) (filter_captions captions);
          response =
            (case chat_completions_create env GPT_MODEL SYSTEM_CONTENT prompt 4069 of
               Inr content \<Rightarrow> strip content
             | Inl e \<Rightarrow> COLOR_RED @ ICON_ERROR @ ascii '' Error fetching GPT-3 response: '' @ e
                          @ COLOR_RESET)
      in if py_in (ascii ''Error occurred'') captions then None
         else if py_in (ascii ''Error fetching GPT-3 response'') response then None
         else Some response)"
    unfolding get_video_summary_def
    apply (simp only: Let_def case_prod_beta some option.case fst_conv snd_conv dc)
    apply (simp add: world_simps build_prompt_fst fetch_gpt3_response_fst)
    done
  then show ?thesis
    by (simp only: captions_def Let_def)
qed

lemma get_video_summary_summarizer_calls:
  assumes meta: "fst (get_video_info env video_url w) = Some info"
    and caps: "\<not> py_in (ascii ''Error occurred'')
                 (fst (download_captions env (info_id info) video_lang w))"
  shows "filter is_summarizer_call
           (new_events w (snd (get_video_summary env video_url video_lang mode copy_to_clipboard w))) =
         (let prompt = (if mode = ascii ''bulletpoint'' then generate_bulletpoint_prompt
                        else generate_standart_prompt)
                         (info_title info)
                         (filter_captions (fst (download_captions env (info_id info) video_lang w)))
          in [Call_fetch_gpt3_response prompt None,
              Ext_chat_completions_create GPT_MODEL SYSTEM_CONTENT prompt 4069])"
proof -
  define captions where "captions = fst (download_captions env (info_id info) video_lang w)"
  have some: "fst (get_video_info env video_url w') = Some info" for w'
    using meta by (simp only: get_video_info_fst[of env video_url w' w])
  have dc: "fst (download_captions env (info_id info) video_lang w') = captions" for w'
    unfolding captions_def by (rule download_captions_fst)
  have ok: "\<not> py_in (ascii ''Error occurred'') captions"
    using caps unfolding captions_def .
  have "filter is_summarizer_call
           (new_events w (snd (get_video_summary env video_url video_lang mode copy_to_clipboard w))) =
         (let prompt = (if mode = ascii ''bulletpoint'' then generate_bulletpoint_prompt
                        else generate_standart_prompt)
                         (info_title info) (filter_captions captions)
          in [Call_fetch_gpt3_response prompt None,
              Ext_chat_completions_create GPT_MODEL SYSTEM_CONTENT prompt 4069])"
    unfolding get_video_summary_def
    apply (simp only: Let_def case_prod_beta some option.case fst_conv snd_conv dc ok if_False)
    apply (simp add: new_events_def world_simps build_prompt_fst get_video_info_events_kinds
        present_events_kinds)
    done
  then show ?thesis
    by (simp only: captions_def)
qed

text \<open>
  The message of \<open>download_captions\<close> contains \<open>Error occurred\<close> only if the message
  of the exception does: the text around it has no capital \<open>E\<close>.
\<close>

lemma sublist_middle:
  assumes sub: "sublist pat (a @ e @ b)" and ne: "pat \<noteq> []"
    and first: "hd pat \<notin> set a" and last: "last pat \<notin> set b"
  shows "sublist pat e"
proof -
  from sub obtain ps ss where eq: "a @ e @ b = ps @ pat @ ss"
    by (auto simp: sublist_def)
  from eq[unfolded append_eq_append_conv2[of a "e @ b" ps "pat @ ss"]] obtain us where
    "(a = ps @ us \<and> us @ e @ b = pat @ ss) \<or> (a @ us = ps \<and> e @ b = us @ pat @ ss)"
    by blast
  then obtain us' where mid: "e @ b = us' @ pat @ ss"
  proof
    assume l: "a = ps @ us \<and> us @ e @ b = pat @ ss"
    have "us = []"
    proof (rule ccontr)
      assume "us \<noteq> []"
      with l ne have "hd us = hd pat"
        by (metis hd_append2)
      moreover have "hd us \<in> set a"
        using l \<open>us \<noteq> []\<close> by auto
      ultimately show False using first by simp
    qed
    with l have "e @ b = [] @ pat @ ss" by simp
    then show ?thesis by (rule that)
  next
    assume "a @ us = ps \<and> e @ b = us @ pat @ ss"
    then show ?thesis by (intro that) simp
  qed
  then have "e @ b = (us' @ pat) @ ss" by simp
  from this[unfolded append_eq_append_conv2[of e b "us' @ pat" ss]] obtain vs where
    "(e = (us' @ pat) @ vs \<and> vs @ b = ss) \<or> (e @ vs = us' @ pat \<and> b = vs @ ss)"
    by blast
  then show ?thesis
  proof
    assume "e = (us' @ pat) @ vs \<and> vs @ b = ss"
    then show ?thesis by (auto simp: sublist_def)
  next
    assume r: "e @ vs = us' @ pat \<and> b = vs @ ss"
    have "vs = []"
    proof (rule ccontr)
      assume "vs \<noteq> []"
      with r ne have "last vs = last pat"
        by (metis last_appendR)
      moreover have "last vs \<in> set b"
        using r \<open>vs \<noteq> []\<close> by auto
      ultimately show False using last by simp
    qed
    with r have "e = us' @ pat @ []" by simp
    then show ?thesis unfolding sublist_def by blast
  qed
qed

lemma caption_error_check_misses:
  assumes "\<not> py_in (ascii ''Error occurred'') e"
  shows "\<not> py_in (ascii ''Error occurred'')
           (COLOR_RED @ ICON_ERROR @ ascii '' An error occurred: '' @ e @ COLOR_RESET)"
proof
  assume "py_in (ascii ''Error occurred'')
           (COLOR_RED @ ICON_ERROR @ ascii '' An error occurred: '' @ e @ COLOR_RESET)"
  then have "sublist (ascii ''Error occurred'')
           ((COLOR_RED @ ICON_ERROR @ ascii '' An error occurred: '') @ e @ COLOR_RESET)"
    by (simp add: py_in_sublist)
  then have "sublist (ascii ''Error occurred'') e"
    by (rule sublist_middle)
       (simp_all add: ascii_def COLOR_RED_def ICON_ERROR_def COLOR_RESET_def)
  with assms show False by (simp add: py_in_sublist)
qed

section \<open>Runs on the test doubles\<close>

lemma stub_meta: "fst (get_video_info (stub_env (Completed out) tr co) url w) = Some demo_info"
  by (simp add: get_video_info_def stub_env_def demo_info_def Let_def)

lemma stub_captions_error:
  "fst (download_captions (stub_env run (Inl e) co) v l w) =
     COLOR_RED @ ICON_ERROR @ ascii '' An error occurred: '' @ e @ COLOR_RESET"
  by (simp add: download_captions_def stub_env_def)

lemma stub_chat: "chat_completions_create (stub_env run tr co) m s p n = co"
  by (simp add: stub_env_def)

lemma demo_captions:
  "\<not> py_in (ascii ''Error occurred'')
       (fst (download_captions (stub_env run (Inr greeting) co) (info_id demo_info) (ascii ''en'') w))"
  "filter_captions
       (fst (download_captions (stub_env run (Inr greeting) co) (info_id demo_info) (ascii ''en'') w))
     = ascii ''Hi there General Kenobi''"
proof -
  have "fst (download_captions (stub_env run (Inr greeting) co) (info_id demo_info) (ascii ''en'') w)
      = fst (download_captions (stub_env (Completed []) (Inr greeting) (Inr [])) [] [] world0)"
    by (simp add: download_captions_def stub_env_def)
  moreover have "\<not> py_in (ascii ''Error occurred'')
       (fst (download_captions (stub_env (Completed []) (Inr greeting) (Inr [])) [] [] world0))"
    by code_simp
  moreover have "filter_captions
       (fst (download_captions (stub_env (Completed []) (Inr greeting) (Inr [])) [] [] world0))
     = ascii ''Hi there General Kenobi''"
    by code_simp
  ultimately show
    "\<not> py_in (ascii ''Error occurred'')
       (fst (download_captions (stub_env run (Inr greeting) co) (info_id demo_info) (ascii ''en'') w))"
    "filter_captions
       (fst (download_captions (stub_env run (Inr greeting) co) (info_id demo_info) (ascii ''en'') w))
     = ascii ''Hi there General Kenobi''"
    by simp_all
qed

lemma demo_summary:
  "strip (ascii ''A greeting exchange occurs.'') = ascii ''A greeting exchange occurs.''"
  "\<not> py_in (ascii ''Error fetching GPT-3 response'') (ascii ''A greeting exchange occurs.'')"
  by code_simp+

lemma demo_run:
  "mode = ascii ''standart'' \<or> mode = ascii ''bulletpoint'' \<Longrightarrow>
   fst (get_video_summary demo_env demo_url (ascii ''en'') mode copy world0)
     = Some (ascii ''A greeting exchange occurs.'')"
  unfolding demo_env_def
  by (simp only: get_video_summary_fst_some[OF stub_meta] Let_def demo_captions stub_chat
      sum.case demo_summary if_False)

section \<open>The pipeline\<close>

text \<open>
  C1: when the caption fetcher fails, \<open>get_video_summary\<close> should return \<open>None\<close> and never
  call the summarizer. The code does not: \<open>download_captions\<close> returns a message that
  reads \<open>An error occurred\<close>, and the orchestrator looks for \<open>Error occurred\<close>. With a
  transcript source that raises \<open>no captions\<close>, the run goes on with the message as
  captions, calls the summarizer and returns its answer.
\<close>

theorem caption_failure_reaches_summarizer:
  "fst (get_video_summary
          (stub_env (Completed []) (Inl (ascii ''no captions''))
             (Inr (ascii ''A greeting exchange occurs.'')))
          demo_url (ascii ''en'') (ascii ''standart'') False world0)
     = Some (ascii ''A greeting exchange occurs.'') \<and>
   filter is_summarizer_call
     (new_events world0 (snd (get_video_summary
          (stub_env (Completed []) (Inl (ascii ''no captions''))
             (Inr (ascii ''A greeting exchange occurs.'')))
          demo_url (ascii ''en'') (ascii ''standart'') False world0)))
     = [Call_fetch_gpt3_response (generate_standart_prompt (ascii ''Demo'') []) None,
        Ext_chat_completions_create GPT_MODEL SYSTEM_CONTENT
          (generate_standart_prompt (ascii ''Demo'') []) 4069]"
proof -
  let ?env = "stub_env (Completed []) (Inl (ascii ''no captions''))
                (Inr (ascii ''A greeting exchange occurs.''))"
  let ?msg = "COLOR_RED @ ICON_ERROR @ ascii '' An error occurred: '' @ ascii ''no captions''
                @ COLOR_RESET"
  have "\<not> py_in (ascii ''Error occurred'') (ascii ''no captions'')"
    by (simp add: ascii_def)
  then have missed: "\<not> py_in (ascii ''Error occurred'') ?msg"
    by (rule caption_error_check_misses)
  have filtered: "filter_captions ?msg = []"
    by (simp add: filter_captions_text_lines strip_def py_isspace_def text_lines_from_Cons
        text_lines_from_Nil ascii_def COLOR_RED_def ICON_ERROR_def COLOR_RESET_def)
  have sb: "ascii ''standart'' \<noteq> ascii ''bulletpoint''"
    by (rule standart_neq_bulletpoint)
  have caps: "\<not> py_in (ascii ''Error occurred'')
                 (fst (download_captions ?env (info_id demo_info) (ascii ''en'') world0))"
    using missed by (simp only: stub_captions_error simp_thms)
  have 1: "fst (get_video_summary ?env demo_url (ascii ''en'') (ascii ''standart'') False world0)
             = Some (ascii ''A greeting exchange occurs.'')"
    by (simp only: get_video_summary_fst_some[OF stub_meta] Let_def stub_captions_error missed
        stub_chat sum.case demo_summary if_False)
  have 2: "filter is_summarizer_call
     (new_events world0 (snd (get_video_summary ?env demo_url (ascii ''en'') (ascii ''standart'')
        False world0)))
     = [Call_fetch_gpt3_response (generate_standart_prompt (ascii ''Demo'') []) None,
        Ext_chat_completions_create GPT_MODEL SYSTEM_CONTENT
          (generate_standart_prompt (ascii ''Demo'') []) 4069]"
    by (simp add: get_video_summary_summarizer_calls[OF stub_meta caps] Let_def
        stub_captions_error filtered sb demo_info_def)
  from 1 2 show ?thesis by (rule conjI)
qed

text \<open>
  C5: when \<open>get_video_info\<close> returns \<open>None\<close>, \<open>get_video_summary\<close> returns \<open>None\<close> and the
  run contains no call of the caption fetcher, of the prompt builder or of the
  summarizer.
\<close>

theorem metadata_failure_short_circuits:
  assumes "fst (get_video_info env video_url w) = None"
  shows "fst (get_video_summary env video_url video_lang mode copy_to_clipboard w) = None \<and>
         filter is_caption_fetcher_call
           (new_events w (snd (get_video_summary env video_url video_lang mode copy_to_clipboard w))) = [] \<and>
         filter is_prompt_builder_call
           (new_events w (snd (get_video_summary env video_url video_lang mode copy_to_clipboard w))) = [] \<and>
         filter is_summarizer_call
           (new_events w (snd (get_video_summary env video_url video_lang mode copy_to_clipboard w))) = []"
proof -
  have none: "fst (get_video_info env video_url w') = None" for w'
    using assms by (simp only: get_video_info_fst[of env video_url w' w])
  show ?thesis
    unfolding get_video_summary_def
    apply (simp only: Let_def case_prod_beta none option.case fst_conv snd_conv)
    apply (simp add: new_events_def world_simps get_video_info_events_kinds)
    done
qed

theorem metadata_failure_short_circuits_witness:
  "fst (get_video_summary
          (stub_env (CalledProcessError 1 (ascii ''ERROR: Video unavailable'')) (Inr greeting)
             (Inr (ascii ''A greeting exchange occurs.'')))
          demo_url (ascii ''en'') (ascii ''standart'') False world0) = None \<and>
   filter is_summarizer_call
     (new_events world0 (snd (get_video_summary
          (stub_env (CalledProcessError 1 (ascii ''ERROR: Video unavailable'')) (Inr greeting)
             (Inr (ascii ''A greeting exchange occurs.'')))
          demo_url (ascii ''en'') (ascii ''standart'') False world0))) = []"
proof -
  have "fst (get_video_info
          (stub_env (CalledProcessError 1 (ascii ''ERROR: Video unavailable'')) (Inr greeting)
             (Inr (ascii ''A greeting exchange occurs.''))) demo_url world0) = None"
    by (simp add: get_video_info_def stub_env_def Let_def)
  from metadata_failure_short_circuits[OF this] show ?thesis
    by blast
qed

text \<open>
  C10: every call of \<open>get_video_summary\<close> that passes the metadata stage leaves the
  global \<open>title\<close> set to the title of the video, whatever happens afterwards.
\<close>

theorem title_global_overwritten:
  assumes "fst (get_video_info env video_url w) = Some info"
  shows "title (snd (get_video_summary env video_url video_lang mode copy_to_clipboard w)) =
           info_title info"
proof -
  have some: "fst (get_video_info env video_url w') = Some info" for w'
    using assms by (simp only: get_video_info_fst[of env video_url w' w])
  show ?thesis
    unfolding get_video_summary_def
    apply (simp only: Let_def case_prod_beta some option.case fst_conv snd_conv)
    apply (simp add: world_simps)
    done
qed

theorem title_global_overwritten_witness:
  "title world0 = [] \<and>
   title (snd (get_video_summary demo_env demo_url (ascii ''en'') (ascii ''standart'') False world0))
     = ascii ''Demo''"
proof -
  have "fst (get_video_info demo_env demo_url world0) = Some demo_info"
    unfolding demo_env_def by (rule stub_meta)
  from title_global_overwritten[OF this] show ?thesis
    by (simp add: demo_info_def world0_def)
qed

text \<open>
  C6: a run that reaches the summarization stage calls \<open>fetch_gpt3_response\<close> once, with
  the built prompt and without a budget, and the completion service is then asked with
  \<open>max_tokens = 4069\<close>; a budget passed to \<open>fetch_gpt3_response\<close> replaces the default.
\<close>

theorem summarizer_called_with_default_budget:
  assumes meta: "fst (get_video_info env video_url w) = Some info"
    and caps: "\<not> py_in (ascii ''Error occurred'')
                 (fst (download_captions env (info_id info) video_lang w))"
  shows "filter is_summarizer_call
           (new_events w (snd (get_video_summary env video_url video_lang mode copy_to_clipboard w))) =
         (let prompt = (if mode = ascii ''bulletpoint'' then generate_bulletpoint_prompt
                        else generate_standart_prompt)
                         (info_title info)
                         (filter_captions (fst (download_captions env (info_id info) video_lang w)))
          in [Call_fetch_gpt3_response prompt None,
              Ext_chat_completions_create GPT_MODEL SYSTEM_CONTENT prompt 4069]) \<and>
         new_events w (snd (fetch_gpt3_response env p (Some n) w)) =
           [Ext_chat_completions_create GPT_MODEL SYSTEM_CONTENT p n]"
proof
  show "filter is_summarizer_call
           (new_events w (snd (get_video_summary env video_url video_lang mode copy_to_clipboard w))) =
         (let prompt = (if mode = ascii ''bulletpoint'' then generate_bulletpoint_prompt
                        else generate_standart_prompt)
                         (info_title info)
                         (filter_captions (fst (download_captions env (info_id info) video_lang w)))
          in [Call_fetch_gpt3_response prompt None,
              Ext_chat_completions_create GPT_MODEL SYSTEM_CONTENT prompt 4069])"
    using meta caps by (rule get_video_summary_summarizer_calls)
  show "new_events w (snd (fetch_gpt3_response env p (Some n) w)) =
           [Ext_chat_completions_create GPT_MODEL SYSTEM_CONTENT p n]"
    by (simp add: new_events_def world_simps)
qed

theorem summarizer_called_with_default_budget_witness:
  "filter is_summarizer_call
     (new_events world0
        (snd (get_video_summary demo_env demo_url (ascii ''en'') (ascii ''standart'') False world0))) =
     [Call_fetch_gpt3_response
        (generate_standart_prompt (ascii ''Demo'') (ascii ''Hi there General Kenobi'')) None,
      Ext_chat_completions_create GPT_MODEL SYSTEM_CONTENT
        (generate_standart_prompt (ascii ''Demo'') (ascii ''Hi there General Kenobi'')) 4069] \<and>
   new_events world0 (snd (fetch_gpt3_response demo_env (ascii ''Say hello.'') (Some 100) world0)) =
     [Ext_chat_completions_create GPT_MODEL SYSTEM_CONTENT (ascii ''Say hello.'') 100]"
proof -
  have meta: "fst (get_video_info demo_env demo_url world0) = Some demo_info"
    unfolding demo_env_def by (rule stub_meta)
  have caps: "\<not> py_in (ascii ''Error occurred'')
       (fst (download_captions demo_env (info_id demo_info) (ascii ''en'') world0))"
    unfolding demo_env_def by (rule demo_captions)
  have "filter_captions (fst (download_captions demo_env (info_id demo_info) (ascii ''en'') world0))
      = ascii ''Hi there General Kenobi''"
    unfolding demo_env_def by (rule demo_captions)
  then have f: "filter_captions (fst (download_captions demo_env (ascii ''abc123'') (ascii ''en'') world0))
      = ascii ''Hi there General Kenobi''"
    by (simp add: demo_info_def)
  from summarizer_called_with_default_budget[OF meta caps, of "ascii ''standart''" False
      "ascii ''Say hello.''" 100]
  show ?thesis
    by (simp add: Let_def f standart_neq_bulletpoint demo_info_def)
qed

text \<open>
  C4: for a mode that is neither \<open>standart\<close> nor \<open>bulletpoint\<close>, the result of
  \<open>get_video_summary\<close> is the one of mode \<open>standart\<close>; and when the run reaches the prompt
  builder, it prints the warning, builds the prompt with \<open>generate_standart_prompt\<close> from
  the same title and transcript, and goes on to the summarizer with that prompt.
\<close>

theorem unknown_mode_falls_back:
  assumes unknown: "mode \<noteq> ascii ''standart''" "mode \<noteq> ascii ''bulletpoint''"
  shows "fst (get_video_summary env video_url video_lang mode copy_to_clipboard w) =
           fst (get_video_summary env video_url video_lang (ascii ''standart'') copy_to_clipboard w) \<and>
         (\<forall>info. fst (get_video_info env video_url w) = Some info \<and>
            \<not> py_in (ascii ''Error occurred'')
                 (fst (download_captions env (info_id info) video_lang w)) \<longrightarrow>
            (let filtered = filter_captions (fst (download_captions env (info_id info) video_lang w));
                 prompt = generate_standart_prompt (info_title info) filtered;
                 events = new_events w
                   (snd (get_video_summary env video_url video_lang mode copy_to_clipboard w))
             in Print (COLOR_RED @ ICON_ERROR @ ascii '' Unknown mode selected: '' @ mode
                         @ ascii ''. Falling back to standart mode.'' @ COLOR_RESET) \<in> set events \<and>
                filter is_prompt_builder_call events =
                  [Call_generate_standart_prompt (info_title info) filtered] \<and>
                filter is_summarizer_call events =
                  [Call_fetch_gpt3_response prompt None,
                   Ext_chat_completions_create GPT_MODEL SYSTEM_CONTENT prompt 4069]))"
proof (intro conjI allI impI)
  show "fst (get_video_summary env video_url video_lang mode copy_to_clipboard w) =
          fst (get_video_summary env video_url video_lang (ascii ''standart'') copy_to_clipboard w)"
  proof (cases "fst (get_video_info env video_url w)")
    case None
    then have none: "fst (get_video_info env video_url w') = None" for w'
      by (simp only: get_video_info_fst[of env video_url w' w])
    show ?thesis
      unfolding get_video_summary_def
      by (simp only: Let_def case_prod_beta none option.case fst_conv snd_conv)
  next
    case (Some info)
    then have some: "fst (get_video_info env video_url w') = Some info" for w'
      by (simp only: get_video_info_fst[of env video_url w' w])
    define captions where "captions = fst (download_captions env (info_id info) video_lang w)"
    have dc: "fst (download_captions env (info_id info) video_lang w') = captions" for w'
      unfolding captions_def by (rule download_captions_fst)
    show ?thesis
      unfolding get_video_summary_def
      apply (simp only: Let_def case_prod_beta some option.case fst_conv snd_conv dc)
      apply (simp add: unknown standart_neq_bulletpoint world_simps build_prompt_fst
          fetch_gpt3_response_fst)
      done
  qed
next
  fix info
  assume a: "fst (get_video_info env video_url w) = Some info \<and>
            \<not> py_in (ascii ''Error occurred'')
                 (fst (download_captions env (info_id info) video_lang w))"
  define captions where "captions = fst (download_captions env (info_id info) video_lang w)"
  have some: "fst (get_video_info env video_url w') = Some info" for w'
    using a by (simp only: get_video_info_fst[of env video_url w' w] simp_thms)
  have dc: "fst (download_captions env (info_id info) video_lang w') = captions" for w'
    unfolding captions_def by (rule download_captions_fst)
  have ok: "\<not> py_in (ascii ''Error occurred'') captions"
    using a unfolding captions_def by (rule conjunct2)
  have "let filtered = filter_captions captions;
            prompt = generate_standart_prompt (info_title info) filtered;
            events = new_events w
                   (snd (get_video_summary env video_url video_lang mode copy_to_clipboard w))
        in Print (COLOR_RED @ ICON_ERROR @ ascii '' Unknown mode selected: '' @ mode
                         @ ascii ''. Falling back to standart mode.'' @ COLOR_RESET) \<in> set events \<and>
                filter is_prompt_builder_call events =
                  [Call_generate_standart_prompt (info_title info) filtered] \<and>
                filter is_summarizer_call events =
                  [Call_fetch_gpt3_response prompt None,
                   Ext_chat_completions_create GPT_MODEL SYSTEM_CONTENT prompt 4069]"
    unfolding get_video_summary_def
    apply (simp only: Let_def case_prod_beta some option.case fst_conv snd_conv dc ok if_False)
    apply (simp add: unknown new_events_def world_simps build_prompt_fst
        get_video_info_events_kinds present_events_kinds)
    done
  then show "let filtered = filter_captions (fst (download_captions env (info_id info) video_lang w));
                 prompt = generate_standart_prompt (info_title info) filtered;
                 events = new_events w
                   (snd (get_video_summary env video_url video_lang mode copy_to_clipboard w))
             in Print (COLOR_RED @ ICON_ERROR @ ascii '' Unknown mode selected: '' @ mode
                         @ ascii ''. Falling back to standart mode.'' @ COLOR_RESET) \<in> set events \<and>
                filter is_prompt_builder_call events =
                  [Call_generate_standart_prompt (info_title info) filtered] \<and>
                filter is_summarizer_call events =
                  [Call_fetch_gpt3_response prompt None,
                   Ext_chat_completions_create GPT_MODEL SYSTEM_CONTENT prompt 4069]"
    by (simp only: captions_def)
qed

theorem unknown_mode_falls_back_witness:
  "fst (get_video_summary demo_env demo_url (ascii ''en'') (ascii ''haiku'') False world0)
     = Some (ascii ''A greeting exchange occurs.'') \<and>
   Print (COLOR_RED @ ICON_ERROR @ ascii '' Unknown mode selected: '' @ ascii ''haiku''
            @ ascii ''. Falling back to standart mode.'' @ COLOR_RESET)
     \<in> set (new_events world0
         (snd (get_video_summary demo_env demo_url (ascii ''en'') (ascii ''haiku'') False world0))) \<and>
   filter is_prompt_builder_call (new_events world0
         (snd (get_video_summary demo_env demo_url (ascii ''en'') (ascii ''haiku'') False world0)))
     = [Call_generate_standart_prompt (ascii ''Demo'') (ascii ''Hi there General Kenobi'')]"
proof -
  have m: "ascii ''haiku'' \<noteq> ascii ''standart''" "ascii ''haiku'' \<noteq> ascii ''bulletpoint''"
    by (simp_all add: ascii_def)
  have meta: "fst (get_video_info demo_env demo_url world0) = Some demo_info"
    unfolding demo_env_def by (rule stub_meta)
  have caps: "\<not> py_in (ascii ''Error occurred'')
       (fst (download_captions demo_env (info_id demo_info) (ascii ''en'') world0))"
    unfolding demo_env_def by (rule demo_captions)
  have "filter_captions (fst (download_captions demo_env (info_id demo_info) (ascii ''en'') world0))
      = ascii ''Hi there General Kenobi''"
    unfolding demo_env_def by (rule demo_captions)
  then have f: "filter_captions (fst (download_captions demo_env (ascii ''abc123'') (ascii ''en'') world0))
      = ascii ''Hi there General Kenobi''"
    by (simp add: demo_info_def)
  have std: "fst (get_video_summary demo_env demo_url (ascii ''en'') (ascii ''standart'') False world0)
     = Some (ascii ''A greeting exchange occurs.'')"
    by (rule demo_run) simp
  from unknown_mode_falls_back[OF m, of demo_env demo_url "ascii ''en''" False world0]
  have 1: "fst (get_video_summary demo_env demo_url (ascii ''en'') (ascii ''haiku'') False world0) =
           fst (get_video_summary demo_env demo_url (ascii ''en'') (ascii ''standart'') False world0)"
    and 2: "fst (get_video_info demo_env demo_url world0) = Some demo_info \<and>
            \<not> py_in (ascii ''Error occurred'')
                 (fst (download_captions demo_env (info_id demo_info) (ascii ''en'') world0)) \<longrightarrow>
            (let filtered = filter_captions (fst (download_captions demo_env (info_id demo_info) (ascii ''en'') world0));
                 prompt = generate_standart_prompt (info_title demo_info) filtered;
                 events = new_events world0
                   (snd (get_video_summary demo_env demo_url (ascii ''en'') (ascii ''haiku'') False world0))
             in Print (COLOR_RED @ ICON_ERROR @ ascii '' Unknown mode selected: '' @ ascii ''haiku''
                         @ ascii ''. Falling back to standart mode.'' @ COLOR_RESET) \<in> set events \<and>
                filter is_prompt_builder_call events =
                  [Call_generate_standart_prompt (info_title demo_info) filtered] \<and>
                filter is_summarizer_call events =
                  [Call_fetch_gpt3_response prompt None,
                   Ext_chat_completions_create GPT_MODEL SYSTEM_CONTENT prompt 4069])"
    by blast+
  from 2 meta caps show ?thesis
    by (simp add: Let_def f 1 std demo_info_def)
qed

text \<open>
  C9: a completion that was fetched without error but contains the text
  \<open>Error fetching GPT-3 response\<close> is taken for a failure: \<open>get_video_summary\<close> returns
  \<open>None\<close>.
\<close>

theorem error_text_in_summary_aborts:
  assumes meta: "fst (get_video_info env video_url w) = Some info"
    and caps: "\<not> py_in (ascii ''Error occurred'')
                 (fst (download_captions env (info_id info) video_lang w))"
    and chat: "chat_completions_create env GPT_MODEL SYSTEM_CONTENT
                 ((if mode = ascii ''bulletpoint'' then generate_bulletpoint_prompt
                   else generate_standart_prompt)
                    (info_title info)
                    (filter_captions (fst (download_captions env (info_id info) video_lang w))))
                 4069 = Inr content"
    and marker: "py_in (ascii ''Error fetching GPT-3 response'') content"
  shows "fst (get_video_summary env video_url video_lang mode copy_to_clipboard w) = None"
proof -
  define captions where "captions = fst (download_captions env (info_id info) video_lang w)"
  have some: "fst (get_video_info env video_url w') = Some info" for w'
    using meta by (simp only: get_video_info_fst[of env video_url w' w])
  have dc: "fst (download_captions env (info_id info) video_lang w') = captions" for w'
    unfolding captions_def by (rule download_captions_fst)
  have ok: "\<not> py_in (ascii ''Error occurred'') captions"
    using caps unfolding captions_def .
  have stripped: "py_in (ascii ''Error fetching GPT-3 response'') (strip content)"
    using marker error_marker_ends by (rule py_in_strip)
  have chat': "chat_completions_create env GPT_MODEL SYSTEM_CONTENT
                 ((if mode = ascii ''bulletpoint'' then generate_bulletpoint_prompt
                   else generate_standart_prompt) (info_title info) (filter_captions captions))
                 4069 = Inr content"
    using chat unfolding captions_def .
  show ?thesis
    unfolding get_video_summary_def
    apply (simp only: Let_def case_prod_beta some option.case fst_conv snd_conv dc ok if_False)
    using chat' stripped
    apply (simp add: world_simps build_prompt_fst fetch_gpt3_response_fst split: if_splits)
    done
qed

theorem error_text_in_summary_aborts_witness:
  "fst (get_video_summary
          (stub_env (Completed []) (Inr greeting)
             (Inr (ascii ''The log line Error fetching GPT-3 response is explained.'')))
          demo_url (ascii ''en'') (ascii ''standart'') False world0) = None"
proof -
  have marker: "py_in (ascii ''Error fetching GPT-3 response'')
      (ascii ''The log line Error fetching GPT-3 response is explained.'')"
    by code_simp
  show ?thesis
    by (rule error_text_in_summary_aborts[OF stub_meta demo_captions(1) stub_chat marker])
qed

text \<open>
  C8, as stated: a successful run returns a summary that is not empty. The code has no
  such check: when the completion service answers with an empty text, the run succeeds
  and returns the empty string.
\<close>

theorem empty_summary_counterexample:
  "fst (get_video_summary (stub_env (Completed []) (Inr greeting) (Inr []))
          demo_url (ascii ''en'') (ascii ''standart'') False world0) = Some []"
proof -
  have e: "strip [] = []" "\<not> py_in (ascii ''Error fetching GPT-3 response'') []"
    by (simp_all add: strip_def ascii_def)
  show ?thesis
    by (simp only: get_video_summary_fst_some[OF stub_meta] Let_def demo_captions stub_chat
        sum.case e if_False)
qed

text \<open>
  C8, amended. A call that returns gives \<open>None\<close> or a string: these are the only values
  of the \<open>return\<close> statements, and \<open>fetch_gpt3_response\<close> returns a string on both of its
  paths. A call out of which an exception escapes (a metadata object without \<open>title\<close> or
  \<open>id\<close>, a \<open>print\<close> or a clipboard copy that raises) returns nothing and is not a run of
  this model. For the calls that return:
  \<^item> when the metadata resolver fails, the result is \<open>None\<close>;
  \<^item> when the metadata is resolved and the completion service raises, the result is
    \<open>None\<close>;
  \<^item> when the metadata is resolved, the transcript is fetched and the completion service
    answers, the result is the text of the completion with the surrounding whitespace
    stripped, which may be the empty string; unless the caption text contains
    \<open>Error occurred\<close> or the stripped completion contains
    \<open>Error fetching GPT-3 response\<close>, and then the result is \<open>None\<close>.

  What a run returns after a failure of the caption fetcher is left open here.
\<close>

theorem get_video_summary_outcome:
  "(fst (get_video_info env video_url w) = None \<longrightarrow>
      fst (get_video_summary env video_url video_lang mode copy_to_clipboard w) = None) \<and>
   (\<forall>info e.
      fst (get_video_info env video_url w) = Some info \<and>
      chat_completions_create env GPT_MODEL SYSTEM_CONTENT
        ((if mode = ascii ''bulletpoint'' then generate_bulletpoint_prompt
          else generate_standart_prompt)
           (info_title info)
           (filter_captions (fst (download_captions env (info_id info) video_lang w))))
        4069 = Inl e \<longrightarrow>
      fst (get_video_summary env video_url video_lang mode copy_to_clipboard w) = None) \<and>
   (\<forall>info transcript content.
      fst (get_video_info env video_url w) = Some info \<and>
      get_transcript env (info_id info) [video_lang] = Inr transcript \<and>
      chat_completions_create env GPT_MODEL SYSTEM_CONTENT
        ((if mode = ascii ''bulletpoint'' then generate_bulletpoint_prompt
          else generate_standart_prompt)
           (info_title info)
           (filter_captions (fst (download_captions env (info_id info) video_lang w))))
        4069 = Inr content \<longrightarrow>
      fst (get_video_summary env video_url video_lang mode copy_to_clipboard w) =
        (if py_in (ascii ''Error occurred'')
              (fst (download_captions env (info_id info) video_lang w)) \<or>
            py_in (ascii ''Error fetching GPT-3 response'') (strip content)
         then None else Some (strip content)))"
proof (intro conjI allI impI)
  assume "fst (get_video_info env video_url w) = None"
  then show "fst (get_video_summary env video_url video_lang mode copy_to_clipboard w) = None"
    by (rule get_video_summary_fst_none)
next
  fix info e
  assume a: "fst (get_video_info env video_url w) = Some info \<and>
      chat_completions_create env GPT_MODEL SYSTEM_CONTENT
        ((if mode = ascii ''bulletpoint'' then generate_bulletpoint_prompt
          else generate_standart_prompt)
           (info_title info)
           (filter_captions (fst (download_captions env (info_id info) video_lang w))))
        4069 = Inl e"
  then have meta: "fst (get_video_info env video_url w) = Some info" and
    chat: "chat_completions_create env GPT_MODEL SYSTEM_CONTENT
        ((if mode = ascii ''bulletpoint'' then generate_bulletpoint_prompt
          else generate_standart_prompt)
           (info_title info)
           (filter_captions (fst (download_captions env (info_id info) video_lang w))))
        4069 = Inl e"
    by blast+
  show "fst (get_video_summary env video_url video_lang mode copy_to_clipboard w) = None"
    by (simp only: get_video_summary_fst_some[OF meta] Let_def chat sum.case
        error_message_has_marker if_True if_cancel)
next
  fix info transcript content
  assume a: "fst (get_video_info env video_url w) = Some info \<and>
      get_transcript env (info_id info) [video_lang] = Inr transcript \<and>
      chat_completions_create env GPT_MODEL SYSTEM_CONTENT
        ((if mode = ascii ''bulletpoint'' then generate_bulletpoint_prompt
          else generate_standart_prompt)
           (info_title info)
           (filter_captions (fst (download_captions env (info_id info) video_lang w))))
        4069 = Inr content"
  then have meta: "fst (get_video_info env video_url w) = Some info" and
    chat: "chat_completions_create env GPT_MODEL SYSTEM_CONTENT
        ((if mode = ascii ''bulletpoint'' then generate_bulletpoint_prompt
          else generate_standart_prompt)
           (info_title info)
           (filter_captions (fst (download_captions env (info_id info) video_lang w))))
        4069 = Inr content"
    by blast+
  have "fst (get_video_summary env video_url video_lang mode copy_to_clipboard w) =
      (if py_in (ascii ''Error occurred'') (fst (download_captions env (info_id info) video_lang w))
       then None
       else if py_in (ascii ''Error fetching GPT-3 response'') (strip content) then None
       else Some (strip content))"
    by (simp only: get_video_summary_fst_some[OF meta] Let_def chat sum.case)
  then show "fst (get_video_summary env video_url video_lang mode copy_to_clipboard w) =
        (if py_in (ascii ''Error occurred'')
              (fst (download_captions env (info_id info) video_lang w)) \<or>
            py_in (ascii ''Error fetching GPT-3 response'') (strip content)
         then None else Some (strip content))"
    by simp
qed

text \<open>
  The three cases on the test doubles: \<open>yt-dlp\<close> fails; the completion service raises;
  every collaborator succeeds.
\<close>

theorem get_video_summary_outcome_witness:
  "fst (get_video_summary
          (stub_env (CalledProcessError 1 (ascii ''ERROR: Video unavailable'')) (Inr greeting)
             (Inr (ascii ''A greeting exchange occurs.'')))
          demo_url (ascii ''en'') (ascii ''standart'') False world0) = None \<and>
   fst (get_video_summary
          (stub_env (Completed []) (Inr greeting) (Inl (ascii ''Rate limit reached'')))
          demo_url (ascii ''en'') (ascii ''standart'') False world0) = None \<and>
   fst (get_video_summary demo_env demo_url (ascii ''en'') (ascii ''standart'') False world0)
     = Some (ascii ''A greeting exchange occurs.'')"
proof (intro conjI)
  let ?down = "stub_env (CalledProcessError 1 (ascii ''ERROR: Video unavailable'')) (Inr greeting)
             (Inr (ascii ''A greeting exchange occurs.''))"
  have "fst (get_video_info ?down demo_url world0) = None"
    by (simp add: get_video_info_def stub_env_def Let_def)
  with get_video_summary_outcome[of ?down demo_url world0 "ascii ''en''" "ascii ''standart''" False]
  show "fst (get_video_summary ?down demo_url (ascii ''en'') (ascii ''standart'') False world0) = None"
    by blast
next
  let ?limit = "stub_env (Completed []) (Inr greeting) (Inl (ascii ''Rate limit reached''))"
  have "fst (get_video_info ?limit demo_url world0) = Some demo_info"
    by (rule stub_meta)
  moreover have "chat_completions_create ?limit GPT_MODEL SYSTEM_CONTENT
        ((if ascii ''standart'' = ascii ''bulletpoint'' then generate_bulletpoint_prompt
          else generate_standart_prompt)
           (info_title demo_info)
           (filter_captions (fst (download_captions ?limit (info_id demo_info) (ascii ''en'') world0))))
        4069 = Inl (ascii ''Rate limit reached'')"
    by (rule stub_chat)
  ultimately show
    "fst (get_video_summary ?limit demo_url (ascii ''en'') (ascii ''standart'') False world0) = None"
    using get_video_summary_outcome[of ?limit demo_url world0 "ascii ''en''" "ascii ''standart''" False]
    by blast
next
  have meta: "fst (get_video_info demo_env demo_url world0) = Some demo_info"
    unfolding demo_env_def by (rule stub_meta)
  have tr: "get_transcript demo_env (info_id demo_info) [ascii ''en''] = Inr greeting"
    by (simp add: demo_env_def stub_env_def)
  have chat: "chat_completions_create demo_env GPT_MODEL SYSTEM_CONTENT
        ((if ascii ''standart'' = ascii ''bulletpoint'' then generate_bulletpoint_prompt
          else generate_standart_prompt)
           (info_title demo_info)
           (filter_captions (fst (download_captions demo_env (info_id demo_info) (ascii ''en'') world0))))
        4069 = Inr (ascii ''A greeting exchange occurs.'')"
    unfolding demo_env_def by (rule stub_chat)
  have caps: "\<not> py_in (ascii ''Error occurred'')
       (fst (download_captions demo_env (info_id demo_info) (ascii ''en'') world0))"
    unfolding demo_env_def by (rule demo_captions)
  from get_video_summary_outcome[of demo_env demo_url world0 "ascii ''en''" "ascii ''standart''" False]
    meta tr chat
  have "fst (get_video_summary demo_env demo_url (ascii ''en'') (ascii ''standart'') False world0) =
        (if py_in (ascii ''Error occurred'')
              (fst (download_captions demo_env (info_id demo_info) (ascii ''en'') world0)) \<or>
            py_in (ascii ''Error fetching GPT-3 response'') (strip (ascii ''A greeting exchange occurs.''))
         then None else Some (strip (ascii ''A greeting exchange occurs.'')))"
    by blast
  then show "fst (get_video_summary demo_env demo_url (ascii ''en'') (ascii ''standart'') False world0)
     = Some (ascii ''A greeting exchange occurs.'')"
    by (simp only: caps demo_summary simp_thms if_False)
qed

end
